theory Spec2Isabelle
  imports Complex_Main "HOL-Library.Sublist"
begin

section \<open>Numbers, errors and containers of the program\<close>

text \<open>
  The program is \<^verbatim>\<open>testing_v3.py\<close>: a trading dashboard that computes an RSI and
  Fibonacci retracement levels over a series of close prices and derives a BUY/SELL signal.

  Prices are 64-bit floats. A finite float is modelled by the real number it denotes and
  arithmetic on finite values is exact: rounding, overflow and the sign of zero are not
  modelled. The three special results that the computation can produce (a missing value,
  and the two infinities of a division by zero) are kept, since the RSI depends on them.
\<close>

datatype fval = Fin real | PInf | NInf | NaN

datatype py_error = ValueError | IndexError | KeyError | JSONDecodeError

text \<open>IEEE comparison: every comparison with a missing value is false.\<close>

fun flt :: "fval \<Rightarrow> fval \<Rightarrow> bool" where
  "flt NaN _ = False"
| "flt _ NaN = False"
| "flt (Fin a) (Fin b) = (a < b)"
| "flt (Fin _) PInf = True"
| "flt (Fin _) NInf = False"
| "flt PInf _ = False"
| "flt NInf NInf = False"
| "flt NInf _ = True"

definition fgt :: "fval \<Rightarrow> fval \<Rightarrow> bool" where
  "fgt a b = flt b a"

fun fneg :: "fval \<Rightarrow> fval" where
  "fneg (Fin a) = Fin (- a)"
| "fneg PInf = NInf"
| "fneg NInf = PInf"
| "fneg NaN = NaN"

fun fadd :: "fval \<Rightarrow> fval \<Rightarrow> fval" where
  "fadd NaN _ = NaN"
| "fadd _ NaN = NaN"
| "fadd (Fin a) (Fin b) = Fin (a + b)"
| "fadd (Fin _) PInf = PInf"
| "fadd (Fin _) NInf = NInf"
| "fadd PInf NInf = NaN"
| "fadd PInf _ = PInf"
| "fadd NInf PInf = NaN"
| "fadd NInf _ = NInf"

definition fsub :: "fval \<Rightarrow> fval \<Rightarrow> fval" where
  "fsub a b = fadd a (fneg b)"

text \<open>
  Division of numpy floats does not raise: a zero divisor gives an infinity, or a missing
  value for \<open>0 / 0\<close>.
\<close>

fun fdiv :: "fval \<Rightarrow> fval \<Rightarrow> fval" where
  "fdiv NaN _ = NaN"
| "fdiv _ NaN = NaN"
| "fdiv (Fin a) (Fin b) =
     (if b = 0 then (if a = 0 then NaN else if 0 < a then PInf else NInf)
      else Fin (a / b))"
| "fdiv (Fin _) PInf = Fin 0"
| "fdiv (Fin _) NInf = Fin 0"
| "fdiv PInf (Fin b) = (if 0 \<le> b then PInf else NInf)"
| "fdiv NInf (Fin b) = (if 0 \<le> b then NInf else PInf)"
| "fdiv PInf _ = NaN"
| "fdiv NInf _ = NaN"

text \<open>
  A Python dict keeps its keys in insertion order: an association list. Reading a key that
  is absent raises \<open>KeyError\<close>.
\<close>

type_synonym 'v dict = "(string \<times> 'v) list"

definition getitem :: "'v dict \<Rightarrow> string \<Rightarrow> py_error + 'v" where
  "getitem d k = (case map_of d k of None \<Rightarrow> Inl KeyError | Some v \<Rightarrow> Inr v)"

section \<open>Fibonacci retracement levels\<close>

text \<open>
  The builtins \<open>max\<close> and \<open>min\<close> walk the series once, keep the first element and
  replace it by a later one that is strictly larger (smaller); on an empty series they
  raise \<open>ValueError\<close>.
\<close>

fun py_max :: "real list \<Rightarrow> py_error + real" where
  "py_max [] = Inl ValueError"
| "py_max (x # xs) = Inr (fold (\<lambda>item best. if best < item then item else best) xs x)"

fun py_min :: "real list \<Rightarrow> py_error + real" where
  "py_min [] = Inl ValueError"
| "py_min (x # xs) = Inr (fold (\<lambda>item best. if item < best then item else best) xs x)"

definition fibonacci_levels :: "real list \<Rightarrow> py_error + real dict" where
  "fibonacci_levels prices =
     (case py_max prices of
        Inl e \<Rightarrow> Inl e
      | Inr max_price \<Rightarrow>
          (case py_min prices of
             Inl e \<Rightarrow> Inl e
           | Inr min_price \<Rightarrow>
               (let diff = max_price - min_price
                in Inr [(''0.0%'', max_price),
                        (''23.6%'', max_price - 0.236 * diff),
                        (''38.2%'', max_price - 0.382 * diff),
                        (''50.0%'', max_price - 0.5 * diff),
                        (''61.8%'', max_price - 0.618 * diff),
                        (''100.0%'', min_price)])))"

text \<open>
  The ratio table as the specification words it: each retracement ratio with the key
  under which its level is stored, ordered from 0% to 100%.
\<close>

definition spec_ratios :: "(string \<times> real) list" where
  "spec_ratios =
     [(''0.0%'', 0), (''23.6%'', 0.236), (''38.2%'', 0.382),
      (''50.0%'', 0.5), (''61.8%'', 0.618), (''100.0%'', 1)]"

definition spec_level :: "real list \<Rightarrow> real \<Rightarrow> real" where
  "spec_level prices r = Max (set prices) - r * (Max (set prices) - Min (set prices))"

section \<open>Relative strength index\<close>

text \<open>
  The pandas operations that \<open>calculate_rsi\<close> chains, on a series of values that may be
  missing. \<open>Series.diff\<close> gives a missing value at the first index and the difference
  to the previous element afterwards.
\<close>

fun series_diff :: "real list \<Rightarrow> fval list" where
  "series_diff [] = []"
| "series_diff (x # xs) = NaN # map2 (\<lambda>prev cur. Fin (cur - prev)) (x # xs) xs"

definition series_where :: "(fval \<Rightarrow> bool) \<Rightarrow> fval \<Rightarrow> fval list \<Rightarrow> fval list" where
  "series_where cond other xs = map (\<lambda>v. if cond v then v else other) xs"

definition fillna :: "fval \<Rightarrow> fval list \<Rightarrow> fval list" where
  "fillna v xs = map (\<lambda>x. if x = NaN then v else x) xs"

text \<open>
  \<open>rolling(window, min_periods).mean()\<close>: the window at index \<open>i\<close> holds the last
  \<open>window\<close> elements up to and including \<open>i\<close> (fewer at the start of the series); its
  mean is taken over the values that are not missing, and is itself missing when there are
  fewer than \<open>min_periods\<close> of them, or none. pandas rejects a negative window or
  \<open>min_periods\<close>, and \<open>min_periods\<close> above the window, with \<open>ValueError\<close>.
\<close>

definition window_at :: "nat \<Rightarrow> nat \<Rightarrow> 'a list \<Rightarrow> 'a list" where
  "window_at w i xs =
     (let start = (if w \<le> Suc i then Suc i - w else 0)
      in take (Suc i - start) (drop start xs))"

definition window_mean :: "nat \<Rightarrow> fval list \<Rightarrow> fval" where
  "window_mean minp win =
     (let obs = filter (\<lambda>v. v \<noteq> NaN) win; nobs = length obs
      in if minp \<le> nobs \<and> 0 < nobs
         then fdiv (fold (\<lambda>v acc. fadd acc v) obs (Fin 0)) (Fin (real nobs))
         else NaN)"

definition rolling_mean :: "int \<Rightarrow> int \<Rightarrow> fval list \<Rightarrow> py_error + fval list" where
  "rolling_mean window min_periods xs =
     (if min_periods < 0 \<or> window < 0 \<or> window < min_periods then Inl ValueError
      else Inr (map (\<lambda>i. window_mean (nat min_periods) (window_at (nat window) i xs))
                  [0..<length xs]))"

definition calculate_rsi :: "real list \<Rightarrow> int \<Rightarrow> py_error + fval list" where
  "calculate_rsi series period =
     (let delta = series_diff series;
          gain = fillna (Fin 0) (series_where (\<lambda>d. fgt d (Fin 0)) (Fin 0) delta);
          loss = fillna (Fin 0) (map fneg (series_where (\<lambda>d. flt d (Fin 0)) (Fin 0) delta))
      in case rolling_mean period period gain of
           Inl e \<Rightarrow> Inl e
         | Inr avg_gain \<Rightarrow>
             (case rolling_mean period period loss of
                Inl e \<Rightarrow> Inl e
              | Inr avg_loss \<Rightarrow>
                  (let rs = map2 fdiv avg_gain avg_loss
                   in Inr (map (\<lambda>r. fsub (Fin 100) (fdiv (Fin 100) (fadd (Fin 1) r))) rs))))"

text \<open>
  The RSI as the specification words it: per-bar gains and losses, their simple moving
  averages over the last \<open>p\<close> bars, and the conversion \<open>100 - 100 / (1 + rs)\<close> of their
  ratio.
\<close>

definition spec_gains :: "real list \<Rightarrow> real list" where
  "spec_gains s = map (\<lambda>i. if i = 0 then 0 else max (s ! i - s ! (i - 1)) 0) [0..<length s]"

definition spec_losses :: "real list \<Rightarrow> real list" where
  "spec_losses s = map (\<lambda>i. if i = 0 then 0 else max (s ! (i - 1) - s ! i) 0) [0..<length s]"

definition spec_sma :: "nat \<Rightarrow> real list \<Rightarrow> nat \<Rightarrow> fval" where
  "spec_sma p xs i =
     (if p = 0 then NaN else Fin (sum_list (take p (drop (Suc i - p) xs)) / real p))"

definition spec_rsi :: "real list \<Rightarrow> nat \<Rightarrow> nat \<Rightarrow> fval" where
  "spec_rsi s p i =
     fsub (Fin 100)
       (fdiv (Fin 100)
          (fadd (Fin 1) (fdiv (spec_sma p (spec_gains s) i) (spec_sma p (spec_losses s) i))))"

text \<open>The sum of the \<open>p\<close> values of a series that end at index \<open>i\<close>.\<close>

definition window_sum :: "nat \<Rightarrow> real list \<Rightarrow> nat \<Rightarrow> real" where
  "window_sum p xs i = sum_list (take p (drop (Suc i - p) xs))"

section \<open>Log, broker and world\<close>

text \<open>
  The program writes log lines, reads the clock, draws random numbers and calls the broker's
  SDK. The log is kept as a list of structured entries (the values that the source formats
  into each line); the SDK calls are functions of their arguments that either raise an
  \<open>Exception\<close> or return a value, and every call made is recorded in the world.
\<close>

datatype exn = Exception string

datatype message =
    Buy_calc_value fval
  | Sell_calc_value fval
  | Error_fetching_historical_data exn
  | Falling_back_to_simulation_data
  | Using_simulated_data_for string
  | SIMULATION_Order_executed string int string
  | Order_executed string int string string
  | Order_execution_failed exn

datatype log_entry = INFO message | ERROR message

type_synonym frame = "real list dict"

datatype kite_transaction = TRANSACTION_TYPE_BUY | TRANSACTION_TYPE_SELL

record order_request =
  variety :: string
  exchange :: string
  tradingsymbol :: string
  transaction_type :: kite_transaction
  quantity :: int
  product :: string
  order_type :: string

record kite_client =
  historical_data :: "string \<Rightarrow> string \<Rightarrow> string \<Rightarrow> string \<Rightarrow> exn + frame"
  place_order :: "order_request \<Rightarrow> exn + string"

text \<open>The entries of \<open>CONFIG\<close> that the program reads, typed as in the default file.\<close>

record config =
  simulation_mode :: bool
  rsi_period :: int
  interval :: string
  duration_days :: int

text \<open>
  The module's globals (\<open>CONFIG\<close>, \<open>kite\<close>) and the two sources of values outside the
  program: the date format of \<open>strftime\<close> and the random generator, whose \<open>k\<close>-th draw
  \<open>uniform k lo hi size\<close> is a list of \<open>size\<close> numbers.
\<close>

record env =
  CONFIG :: config
  kite :: "kite_client option"
  strftime :: "real \<Rightarrow> string"
  uniform :: "nat \<Rightarrow> real \<Rightarrow> real \<Rightarrow> nat \<Rightarrow> real list"

record world =
  log :: "log_entry list"
  clock :: real
  historical_calls :: "(string \<times> string \<times> string \<times> string) list"
  order_calls :: "order_request list"
  draws :: nat

definition logger_info :: "message \<Rightarrow> world \<Rightarrow> world" where
  "logger_info m w = w\<lparr>log := log w @ [INFO m]\<rparr>"

definition logger_error :: "message \<Rightarrow> world \<Rightarrow> world" where
  "logger_error m w = w\<lparr>log := log w @ [ERROR m]\<rparr>"

section \<open>Fetching historical data\<close>

text \<open>
  The simulated frame: four columns of 100 uniform draws each, in a price range chosen by
  the instrument's name. (The timestamp index of the frame is not modelled; nothing reads
  it.)
\<close>

definition simulate :: "env \<Rightarrow> string \<Rightarrow> world \<Rightarrow> frame \<times> world" where
  "simulate e instrument_token w =
     (let w1 = logger_info (Using_simulated_data_for instrument_token) w;
          price_range =
            (if sublist ''NIFTY'' instrument_token \<and> \<not> sublist ''BANK'' instrument_token
             then (15000, 16000) else (35000, 36000));
          k = draws w1
      in ([(''open'', uniform e k (fst price_range) (snd price_range) 100),
           (''high'', uniform e (k + 1) (fst price_range) (snd price_range) 100),
           (''low'', uniform e (k + 2) (fst price_range) (snd price_range) 100),
           (''close'', uniform e (k + 3) (fst price_range) (snd price_range) 100)],
          w1\<lparr>draws := k + 4\<rparr>))"

text \<open>
  \<open>historical_data\<close> of the client stands for the whole body of the \<open>try\<close> block: the
  SDK call and the conversion of its answer into a frame.
\<close>

definition fetch_historical_data :: "env \<Rightarrow> string \<Rightarrow> string \<Rightarrow> int \<Rightarrow> world \<Rightarrow> frame \<times> world" where
  "fetch_historical_data e instrument_token ivl duration w =
     (case (if \<not> simulation_mode (CONFIG e) then kite e else None) of
        Some k \<Rightarrow>
          (let from_date = strftime e (clock w - 86400 * real_of_int duration);
               to_date = strftime e (clock w);
               w1 = w\<lparr>historical_calls :=
                        historical_calls w @ [(instrument_token, from_date, to_date, ivl)]\<rparr>
           in case historical_data k instrument_token from_date to_date ivl of
                Inr data \<Rightarrow> (data, w1)
              | Inl ex \<Rightarrow>
                  simulate e instrument_token
                    (logger_info Falling_back_to_simulation_data
                       (logger_error (Error_fetching_historical_data ex) w1)))
      | None \<Rightarrow> simulate e instrument_token w)"

section \<open>Signal generation\<close>

datatype signal = BUY | SELL

definition rel_distance :: "real \<Rightarrow> real \<Rightarrow> fval" where
  "rel_distance price level = fdiv (Fin \<bar>price - level\<bar>) (Fin level)"

text \<open>Lines 167 and 168: the two ratios are computed and logged before any test.\<close>

definition log_calc_values :: "real \<Rightarrow> real dict \<Rightarrow> world \<Rightarrow> (py_error + unit) \<times> world" where
  "log_calc_values latest_price fib_levels w =
     (case getitem fib_levels ''100.0%'' of
        Inl e \<Rightarrow> (Inl e, w)
      | Inr low \<Rightarrow>
          (let w1 = logger_info (Buy_calc_value (rel_distance latest_price low)) w
           in case getitem fib_levels ''0.0%'' of
                Inl e \<Rightarrow> (Inl e, w1)
              | Inr high \<Rightarrow>
                  (Inr (), logger_info (Sell_calc_value (rel_distance latest_price high)) w1)))"

text \<open>Lines 159 to 180, without the two log lines: the signal rule.\<close>

definition signal_rule :: "fval \<Rightarrow> real \<Rightarrow> real dict \<Rightarrow> py_error + signal option" where
  "signal_rule latest_rsi latest_price fib_levels =
     (if flt latest_rsi (Fin 50) then
        (case getitem fib_levels ''100.0%'' of
           Inl e \<Rightarrow> Inl e
         | Inr low \<Rightarrow>
             if flt (rel_distance latest_price low) (Fin 0.01) then Inr (Some BUY)
             else if fgt latest_rsi (Fin 55) then
               (case getitem fib_levels ''0.0%'' of
                  Inl e \<Rightarrow> Inl e
                | Inr high \<Rightarrow>
                    if flt (rel_distance latest_price high) (Fin 0.01) then Inr (Some SELL)
                    else Inr None)
             else Inr None)
      else if fgt latest_rsi (Fin 55) then
        (case getitem fib_levels ''0.0%'' of
           Inl e \<Rightarrow> Inl e
         | Inr high \<Rightarrow>
             if flt (rel_distance latest_price high) (Fin 0.01) then Inr (Some SELL)
             else Inr None)
      else Inr None)"

text \<open>\<open>iloc[-1]\<close>: the last element, \<open>IndexError\<close> on an empty series.\<close>

definition iloc_last :: "'a list \<Rightarrow> py_error + 'a" where
  "iloc_last xs = (if xs = [] then Inl IndexError else Inr (last xs))"

record analysis =
  signal_of :: "signal option"
  latest_price_of :: real
  latest_rsi_of :: fval
  fib_levels_of :: "real dict"

definition analyze_frame :: "int \<Rightarrow> frame \<Rightarrow> world \<Rightarrow> (py_error + analysis) \<times> world" where
  "analyze_frame period data w =
     (case getitem data ''close'' of
        Inl e \<Rightarrow> (Inl e, w)
      | Inr close \<Rightarrow>
     (case calculate_rsi close period of
        Inl e \<Rightarrow> (Inl e, w)
      | Inr rsi \<Rightarrow>
     (case fibonacci_levels close of
        Inl e \<Rightarrow> (Inl e, w)
      | Inr fib_levels \<Rightarrow>
     (case iloc_last rsi of
        Inl e \<Rightarrow> (Inl e, w)
      | Inr latest_rsi \<Rightarrow>
     (case iloc_last close of
        Inl e \<Rightarrow> (Inl e, w)
      | Inr latest_price \<Rightarrow>
     (case log_calc_values latest_price fib_levels w of
        (Inl e, w1) \<Rightarrow> (Inl e, w1)
      | (Inr _, w1) \<Rightarrow>
     (case signal_rule latest_rsi latest_price fib_levels of
        Inl e \<Rightarrow> (Inl e, w1)
      | Inr sig \<Rightarrow>
          (Inr \<lparr>signal_of = sig, latest_price_of = latest_price,
                latest_rsi_of = latest_rsi, fib_levels_of = fib_levels\<rparr>, w1))))))))"

definition analyze_and_generate_signal :: "env \<Rightarrow> string \<Rightarrow> world \<Rightarrow> (py_error + analysis) \<times> world" where
  "analyze_and_generate_signal e instrument_token w =
     (case fetch_historical_data e instrument_token (interval (CONFIG e))
             (duration_days (CONFIG e)) w of
        (data, w1) \<Rightarrow> analyze_frame (rsi_period (CONFIG e)) data w1)"

text \<open>
  "Within 1% of a level" as the specification words it: the distance to the level is less
  than a hundredth of the level's magnitude.
\<close>

definition spec_within_1pct :: "real \<Rightarrow> real \<Rightarrow> bool" where
  "spec_within_1pct price level = (\<bar>price - level\<bar> < 0.01 * \<bar>level\<bar>)"

definition spec_signal :: "fval \<Rightarrow> real \<Rightarrow> real \<Rightarrow> real \<Rightarrow> signal option" where
  "spec_signal rsi price low high =
     (if flt rsi (Fin 50) \<and> spec_within_1pct price low then Some BUY
      else if fgt rsi (Fin 55) \<and> spec_within_1pct price high then Some SELL
      else None)"

section \<open>Order execution\<close>

text \<open>
  \<open>int(x)\<close> of a float truncates towards zero; \<open>str\<close> of an integer is its decimal
  numeral.
\<close>

definition py_int :: "real \<Rightarrow> int" where
  "py_int x = (if 0 \<le> x then \<lfloor>x\<rfloor> else \<lceil>x\<rceil>)"

fun str_nat :: "nat \<Rightarrow> string" where
  "str_nat n =
     (if n < 10 then [''0123456789'' ! n]
      else str_nat (n div 10) @ [''0123456789'' ! (n mod 10)])"

declare str_nat.simps [simp del]

definition str_int :: "int \<Rightarrow> string" where
  "str_int i = (if i < 0 then CHR ''-'' # str_nat (nat (- i)) else str_nat (nat i))"

text \<open>
  The dispatcher. The strings \<open>regular\<close>, \<open>MIS\<close> and \<open>MARKET\<close> are the values of the
  SDK's constants \<open>VARIETY_REGULAR\<close>, \<open>PRODUCT_MIS\<close> and \<open>ORDER_TYPE_MARKET\<close>; the
  request is recorded in the world before the SDK answers, so the number of recorded
  requests is the number of calls made.
\<close>

definition execute_order :: "env \<Rightarrow> string \<Rightarrow> string \<Rightarrow> int \<Rightarrow> world \<Rightarrow> string option \<times> world" where
  "execute_order e symbol ttype qty w =
     (case (if simulation_mode (CONFIG e) then None else kite e) of
        None \<Rightarrow>
          (Some (''sim_order_'' @ str_int (py_int (clock w))),
           logger_info (SIMULATION_Order_executed ttype qty symbol) w)
      | Some k \<Rightarrow>
          (let kite_transaction_type =
                 (if ttype = ''BUY'' then TRANSACTION_TYPE_BUY else TRANSACTION_TYPE_SELL);
               request = \<lparr>variety = ''regular'', exchange = ''NSE'', tradingsymbol = symbol,
                          transaction_type = kite_transaction_type, quantity = qty,
                          product = ''MIS'', order_type = ''MARKET''\<rparr>;
               w1 = w\<lparr>order_calls := order_calls w @ [request]\<rparr>
           in case place_order k request of
                Inr order_id \<Rightarrow>
                  (Some order_id, logger_info (Order_executed ttype qty symbol order_id) w1)
              | Inl ex \<Rightarrow> (None, logger_error (Order_execution_failed ex) w1)))"

section \<open>Configuration file\<close>

datatype json =
    JNull
  | JBool bool
  | JInt int
  | JFloat real
  | JString string
  | JArray "json list"
  | JObject "(string \<times> json) list"

definition default_config :: json where
  "default_config =
     JObject
       [(''kite'', JObject [(''api_key'', JString ''YOUR_KITE_API_KEY''),
                            (''api_secret'', JString ''YOUR_KITE_API_SECRET''),
                            (''access_token'', JString ''YOUR_ACCESS_TOKEN'')]),
        (''instruments'', JObject [(''NIFTY'', JString ''NIFTY50''),
                                   (''BANKNIFTY'', JString ''BANKNIFTY'')]),
        (''analysis'', JObject [(''rsi_period'', JInt 14),
                                (''interval'', JString ''5minute''),
                                (''duration_days'', JInt 1)]),
        (''simulation_mode'', JBool True)]"

text \<open>
  The file system maps a path to the text of the file there. \<open>json.load\<close> and
  \<open>json.dump\<close> (with \<open>indent=4\<close>) are the library's parser and printer, taken as
  parameters; the parser fails on a text that is not JSON.
\<close>

type_synonym filesystem = "string \<rightharpoonup> string"

definition load_config ::
  "(string \<Rightarrow> py_error + json) \<Rightarrow> (json \<Rightarrow> string) \<Rightarrow> string \<Rightarrow> filesystem
     \<Rightarrow> (py_error + json) \<times> filesystem" where
  "load_config json_load json_dump config_path fs =
     (case fs config_path of
        Some text \<Rightarrow> (json_load text, fs)
      | None \<Rightarrow> (Inr default_config, fs(config_path \<mapsto> json_dump default_config)))"

text \<open>The keys of a JSON object, and the value under a path of keys.\<close>

fun json_keys :: "json \<Rightarrow> string list" where
  "json_keys (JObject kvs) = map fst kvs"
| "json_keys _ = []"

fun json_get :: "json \<Rightarrow> string \<Rightarrow> json option" where
  "json_get (JObject kvs) k = map_of kvs k"
| "json_get _ k = None"

section \<open>Concrete worlds and environments\<close>

text \<open>
  A starting world, a broker client whose every call raises, one whose every call succeeds,
  and the environments built from them; the examples below run the program on these.
\<close>

definition initial_world :: world where
  "initial_world =
     \<lparr>log = [], clock = 1700000000.7, historical_calls = [], order_calls = [], draws = 0\<rparr>"

definition failing_client :: kite_client where
  "failing_client =
     \<lparr>historical_data = (\<lambda>token from_date to_date ivl. Inl (Exception ''timed out'')),
      place_order = (\<lambda>request. Inl (Exception ''rejected''))\<rparr>"

definition accepting_client :: kite_client where
  "accepting_client =
     \<lparr>historical_data = (\<lambda>token from_date to_date ivl. Inr [(''close'', [100, 110, 105])]),
      place_order = (\<lambda>request. Inr ''240101000000001'')\<rparr>"

definition live_env :: "kite_client option \<Rightarrow> env" where
  "live_env client =
     \<lparr>CONFIG = \<lparr>simulation_mode = False, rsi_period = 14, interval = ''5minute'',
                 duration_days = 1\<rparr>,
      kite = client,
      strftime = (\<lambda>t. if t < 1700000000 then ''2023-11-13'' else ''2023-11-14''),
      uniform = (\<lambda>k lo hi size. replicate size ((lo + hi) / 2))\<rparr>"

definition simulation_env :: env where
  "simulation_env = (live_env (Some accepting_client))
     \<lparr>CONFIG := \<lparr>simulation_mode = True, rsi_period = 14, interval = ''5minute'',
                  duration_days = 1\<rparr>\<rparr>"

section \<open>Properties of the Fibonacci levels\<close>

lemma fold_max_is_Max:
  "fold (\<lambda>item best. if best < item then item else best) xs (x::real) = Max (set (x # xs))"
proof (induction xs arbitrary: x)
  case Nil
  show ?case by simp
next
  case (Cons y ys)
  have "Max (set (x # y # ys)) = Max (set (max x y # ys))"
    by (cases ys) (simp_all add: max.assoc)
  moreover have "(if x < y then y else x) = max x y"
    by (simp add: max_def)
  ultimately show ?case
    using Cons.IH [of "max x y"] by simp
qed

lemma fold_min_is_Min:
  "fold (\<lambda>item best. if item < best then item else best) xs (x::real) = Min (set (x # xs))"
proof (induction xs arbitrary: x)
  case Nil
  show ?case by simp
next
  case (Cons y ys)
  have "Min (set (x # y # ys)) = Min (set (min x y # ys))"
    by (cases ys) (simp_all add: min.assoc)
  moreover have "(if y < x then y else x) = min x y"
    by (simp add: min_def)
  ultimately show ?case
    using Cons.IH [of "min x y"] by simp
qed

lemma py_max_nonempty: "prices \<noteq> [] \<Longrightarrow> py_max prices = Inr (Max (set prices))"
  by (cases prices) (simp_all add: fold_max_is_Max del: fold_simps set_simps)

lemma py_min_nonempty: "prices \<noteq> [] \<Longrightarrow> py_min prices = Inr (Min (set prices))"
  by (cases prices) (simp_all add: fold_min_is_Min del: fold_simps set_simps)

lemma Min_le_Max_list: "prices \<noteq> [] \<Longrightarrow> Min (set prices) \<le> Max (set (prices :: real list))"
  by (simp add: Min_le_iff)

lemma fibonacci_levels_nonempty:
  assumes "prices \<noteq> []"
  shows "fibonacci_levels prices =
           Inr [(''0.0%'', Max (set prices)),
                (''23.6%'', Max (set prices) - 0.236 * (Max (set prices) - Min (set prices))),
                (''38.2%'', Max (set prices) - 0.382 * (Max (set prices) - Min (set prices))),
                (''50.0%'', Max (set prices) - 0.5 * (Max (set prices) - Min (set prices))),
                (''61.8%'', Max (set prices) - 0.618 * (Max (set prices) - Min (set prices))),
                (''100.0%'', Min (set prices))]"
  using assms by (simp add: fibonacci_levels_def py_max_nonempty py_min_nonempty Let_def)

lemma levels_descend:
  fixes lo hi :: real
  assumes "lo \<le> hi"
  shows "sorted_wrt (\<lambda>a b. b \<le> a)
           [hi, hi - 0.236 * (hi - lo), hi - 0.382 * (hi - lo), hi - 0.5 * (hi - lo),
            hi - 0.618 * (hi - lo), lo]"
proof -
  have "hi - c' * (hi - lo) \<le> hi - c * (hi - lo)" if "c \<le> c'" for c c' :: real
    using mult_right_mono [OF that, of "hi - lo"] assms by simp
  from this [of 0 "0.236"] this [of "0.236" "0.382"] this [of "0.382" "0.5"]
    this [of "0.5" "0.618"] this [of "0.618" 1] this [of "0.236" 1] this [of "0.382" 1]
    this [of "0.5" 1] this [of "0.236" "0.5"] this [of "0.236" "0.618"]
    this [of "0.382" "0.618"] this [of 0 "0.382"] this [of 0 "0.5"] this [of 0 "0.618"]
  show ?thesis using assms by simp
qed

text \<open>
  Claim C3. For every non-empty price series the level stored under 0% is the maximum of
  the prices, the level under 100% is their minimum, and the six levels, read in the order
  of their ratios (0%, 23.6%, 38.2%, 50%, 61.8%, 100%), never increase.
\<close>

theorem fibonacci_levels_bounds_and_order:
  assumes "prices \<noteq> []"
  shows "\<exists>levels. fibonacci_levels prices = Inr levels \<and>
           getitem levels ''0.0%'' = Inr (Max (set prices)) \<and>
           getitem levels ''100.0%'' = Inr (Min (set prices)) \<and>
           map fst levels = [''0.0%'', ''23.6%'', ''38.2%'', ''50.0%'', ''61.8%'', ''100.0%''] \<and>
           sorted_wrt (\<lambda>a b. b \<le> a) (map snd levels)"
  using levels_descend [OF Min_le_Max_list [OF assms]]
  by (simp add: fibonacci_levels_nonempty [OF assms] getitem_def)

theorem fibonacci_levels_bounds_and_order_witness:
  "\<exists>levels. fibonacci_levels [2, 3, 1] = Inr levels \<and>
     getitem levels ''0.0%'' = Inr 3 \<and> getitem levels ''100.0%'' = Inr 1 \<and>
     sorted_wrt (\<lambda>a b. b \<le> a) (map snd levels)"
  using fibonacci_levels_bounds_and_order [of "[2, 3, 1]"] by auto

text \<open>
  Claim C4, as amended. The calculator returns six levels, not five: one for each of the
  ratios 0%, 23.6%, 38.2%, 50%, 61.8% and 100%, and the level of ratio \<open>r\<close> is
  \<open>max - r * (max - min)\<close> over the whole series.
\<close>

theorem fibonacci_levels_linear:
  assumes "prices \<noteq> []"
  shows "\<exists>levels. fibonacci_levels prices = Inr levels \<and> length levels = 6 \<and>
           levels = map (\<lambda>(k, r). (k, spec_level prices r)) spec_ratios"
  by (simp add: fibonacci_levels_nonempty [OF assms] spec_ratios_def spec_level_def)

theorem fibonacci_levels_linear_witness:
  "\<exists>levels. fibonacci_levels [2, 3, 1] = Inr levels \<and> length levels = 6 \<and>
     levels = map (\<lambda>(k, r). (k, spec_level [2, 3, 1] r)) spec_ratios"
  using fibonacci_levels_linear [of "[2, 3, 1]"] by simp

text \<open>
  The claim as stated speaks of five ratios. On the series 1, 2 the calculator returns six
  levels.
\<close>

theorem fibonacci_levels_five_counterexample:
  "fibonacci_levels [1, 2] =
     Inr [(''0.0%'', 2), (''23.6%'', 1.764), (''38.2%'', 1.618),
          (''50.0%'', 1.5), (''61.8%'', 1.382), (''100.0%'', 1)] \<and>
   length (projr (fibonacci_levels [1, 2])) \<noteq> 5"
  by (simp add: fibonacci_levels_def)

section \<open>Properties of the RSI\<close>

lemma length_series_diff: "length (series_diff s) = length s"
  by (cases s) simp_all

lemma series_diff_nth:
  "i < length s \<Longrightarrow> series_diff s ! i = (if i = 0 then NaN else Fin (s ! i - s ! (i - 1)))"
  by (cases s; cases i) simp_all

lemma gain_series:
  "fillna (Fin 0) (series_where (\<lambda>d. fgt d (Fin 0)) (Fin 0) (series_diff s)) = map Fin (spec_gains s)"
  by (rule nth_equalityI)
     (auto simp: fillna_def series_where_def spec_gains_def length_series_diff series_diff_nth fgt_def)

lemma loss_series:
  "fillna (Fin 0) (map fneg (series_where (\<lambda>d. flt d (Fin 0)) (Fin 0) (series_diff s))) = map Fin (spec_losses s)"
  by (rule nth_equalityI)
     (auto simp: fillna_def series_where_def spec_losses_def length_series_diff series_diff_nth)

lemma fold_fadd_Fin:
  "fold (\<lambda>v acc. fadd acc v) (map Fin ys) (Fin a) = Fin (a + sum_list ys)"
  by (induction ys arbitrary: a) (simp_all add: add.assoc)

lemma window_mean_Fin:
  "window_mean minp (map Fin ys) =
     (if minp \<le> length ys \<and> 0 < length ys then Fin (sum_list ys / real (length ys)) else NaN)"
proof -
  have "filter (\<lambda>v. v \<noteq> NaN) (map Fin ys) = map Fin ys"
    by (induction ys) simp_all
  then show ?thesis
    by (simp add: window_mean_def fold_fadd_Fin Let_def)
qed

lemma window_at_map: "window_at w i (map f xs) = map f (window_at w i xs)"
  by (simp add: window_at_def Let_def take_map drop_map)

lemma window_at_full:
  "w \<le> Suc i \<Longrightarrow> i < length xs \<Longrightarrow>
     window_at w i xs = take w (drop (Suc i - w) xs) \<and> length (window_at w i xs) = w"
  by (simp add: window_at_def Let_def)

lemma window_at_short:
  "Suc i < w \<Longrightarrow> i < length xs \<Longrightarrow> length (window_at w i xs) = Suc i"
  by (simp add: window_at_def Let_def)

lemma rolling_mean_Fin:
  assumes "0 \<le> p"
  shows "rolling_mean p p (map Fin xs) =
           Inr (map (\<lambda>i. if Suc i < nat p then NaN else spec_sma (nat p) xs i) [0..<length xs])"
proof -
  have "window_mean (nat p) (window_at (nat p) i (map Fin xs)) =
          (if Suc i < nat p then NaN else spec_sma (nat p) xs i)" if "i < length xs" for i
  proof (cases "Suc i < nat p")
    case True
    with that show ?thesis
      by (simp add: window_at_map window_mean_Fin window_at_short)
  next
    case False
    then have "nat p \<le> Suc i" by simp
    have eq: "window_at (nat p) i xs = take (nat p) (drop (Suc i - nat p) xs)"
      using window_at_full [OF \<open>nat p \<le> Suc i\<close> that] by blast
    have len: "length (take (nat p) (drop (Suc i - nat p) xs)) = nat p"
      using \<open>nat p \<le> Suc i\<close> that by simp
    show ?thesis
      using False len by (simp only: window_at_map window_mean_Fin spec_sma_def eq) auto
  qed
  then show ?thesis
    using assms by (simp add: rolling_mean_def)
qed

lemma rsi_of_NaN: "fsub (Fin 100) (fdiv (Fin 100) (fadd (Fin 1) (fdiv NaN NaN))) = NaN"
  by (simp add: fsub_def)

lemma calculate_rsi_char:
  assumes "0 \<le> p"
  shows "calculate_rsi s p =
           Inr (map (\<lambda>i. if Suc i < nat p then NaN else spec_rsi s (nat p) i) [0..<length s])"
proof -
  have len: "length (spec_gains s) = length s" "length (spec_losses s) = length s"
    by (simp_all add: spec_gains_def spec_losses_def)
  have "map2 f (map g is) (map h is) = map (\<lambda>i. f (g i) (h i)) is" for f :: "fval \<Rightarrow> fval \<Rightarrow> fval" and g h and "is" :: "nat list"
    by (induction "is") simp_all
  then show ?thesis
    using assms
    by (simp add: calculate_rsi_def gain_series loss_series rolling_mean_Fin len Let_def
        spec_rsi_def fsub_def)
qed

lemma calculate_rsi_negative_period: "p < 0 \<Longrightarrow> calculate_rsi s p = Inl ValueError"
  by (simp add: calculate_rsi_def rolling_mean_def Let_def)

lemma take_drop_nths:
  "k + p \<le> length xs \<Longrightarrow> take p (drop k xs) = map ((!) xs) [k..<k + p]"
  by (rule nth_equalityI) (simp_all add: add.commute)

lemma spec_gains_nth:
  "j < length s \<Longrightarrow> spec_gains s ! j = (if j = 0 then 0 else max (s ! j - s ! (j - 1)) 0)"
  by (simp add: spec_gains_def)

lemma spec_losses_nth:
  "j < length s \<Longrightarrow> spec_losses s ! j = (if j = 0 then 0 else max (s ! (j - 1) - s ! j) 0)"
  by (simp add: spec_losses_def)

lemma length_spec_gains: "length (spec_gains s) = length s"
  by (simp add: spec_gains_def)

lemma length_spec_losses: "length (spec_losses s) = length s"
  by (simp add: spec_losses_def)

lemma spec_gains_nonneg: "x \<in> set (spec_gains s) \<Longrightarrow> 0 \<le> x"
  by (auto simp: spec_gains_def)

lemma spec_losses_nonneg: "x \<in> set (spec_losses s) \<Longrightarrow> 0 \<le> x"
  by (auto simp: spec_losses_def)

lemma in_window_in_set: "x \<in> set (take p (drop k xs)) \<Longrightarrow> x \<in> set xs"
  by (blast dest: in_set_takeD in_set_dropD)

lemma window_sum_nonneg:
  assumes "\<And>x. x \<in> set xs \<Longrightarrow> 0 \<le> x"
  shows "0 \<le> window_sum p xs i"
  unfolding window_sum_def
  by (rule sum_list_nonneg) (blast intro: assms in_window_in_set)

lemma window_sum_zero_iff:
  assumes "\<And>x. x \<in> set xs \<Longrightarrow> 0 \<le> x" and "p \<le> Suc i" and "i < length xs"
  shows "window_sum p xs i = 0 \<longleftrightarrow> (\<forall>j. Suc i - p \<le> j \<and> j \<le> i \<longrightarrow> xs ! j = 0)"
proof -
  have td: "take p (drop (Suc i - p) xs) = map ((!) xs) [Suc i - p..<Suc i]"
    using take_drop_nths [of "Suc i - p" p xs] assms(2,3) by simp
  have nn: "\<And>x. x \<in> set (take p (drop (Suc i - p) xs)) \<Longrightarrow> 0 \<le> x"
    by (blast intro: assms(1) in_window_in_set)
  have "window_sum p xs i = 0 \<longleftrightarrow> (\<forall>x \<in> set (take p (drop (Suc i - p) xs)). x = 0)"
    unfolding window_sum_def using nn by (rule sum_list_nonneg_eq_0_iff)
  also have "\<dots> \<longleftrightarrow> (\<forall>j \<in> {Suc i - p..<Suc i}. xs ! j = 0)"
    unfolding td by (simp del: upt_Suc)
  also have "\<dots> \<longleftrightarrow> (\<forall>j. Suc i - p \<le> j \<and> j \<le> i \<longrightarrow> xs ! j = 0)"
    by (simp add: Ball_def less_Suc_eq_le)
  finally show ?thesis .
qed

lemma spec_sma_window_sum:
  "0 < p \<Longrightarrow> spec_sma p xs i = Fin (window_sum p xs i / real p)"
  by (simp add: spec_sma_def window_sum_def)

lemma rsi_conversion_cases:
  assumes "0 \<le> g" and "0 \<le> l" and "0 < (c::real)"
  shows "fsub (Fin 100) (fdiv (Fin 100) (fadd (Fin 1) (fdiv (Fin (g / c)) (Fin (l / c))))) =
           (if l = 0 then (if g = 0 then NaN else Fin 100)
            else Fin (100 - 100 / (1 + g / l)))"
proof (cases "l = 0")
  case True
  show ?thesis
  proof (cases "g = 0")
    case True
    with \<open>l = 0\<close> show ?thesis by (simp add: fsub_def)
  next
    case False
    with assms have "0 < g / c" by simp
    with \<open>l = 0\<close> False assms(3) show ?thesis by (simp add: fsub_def)
  qed
next
  case False
  with assms have "0 < l" by simp
  with assms have "0 \<le> g / l" by simp
  then have nz: "1 + g / l \<noteq> 0" by linarith
  have ratio: "g / c / (l / c) = g / l"
    using assms(3) by simp
  have "fdiv (Fin (g / c)) (Fin (l / c)) = Fin (g / l)"
    using False assms(3) ratio by simp
  then show ?thesis
    using False nz by (simp add: fsub_def)
qed

lemma spec_rsi_value:
  assumes "0 < p"
  shows "spec_rsi s p i =
           (if window_sum p (spec_losses s) i = 0
            then (if window_sum p (spec_gains s) i = 0 then NaN else Fin 100)
            else Fin (100 - 100 / (1 + window_sum p (spec_gains s) i / window_sum p (spec_losses s) i)))"
proof -
  have g: "0 \<le> window_sum p (spec_gains s) i"
    by (rule window_sum_nonneg) (rule spec_gains_nonneg)
  have l: "0 \<le> window_sum p (spec_losses s) i"
    by (rule window_sum_nonneg) (rule spec_losses_nonneg)
  have c: "0 < real p" using assms by simp
  show ?thesis
    unfolding spec_rsi_def spec_sma_window_sum [OF assms]
    by (rule rsi_conversion_cases [OF g l c])
qed

lemma spec_rsi_defined_iff:
  assumes "0 < p" and "p \<le> Suc i" and "i < length s"
  shows "spec_rsi s p i \<noteq> NaN \<longleftrightarrow>
           (\<exists>j. Suc i - p \<le> j \<and> j \<le> i \<and> 0 < j \<and> s ! j \<noteq> s ! (j - 1))"
proof -
  have g0: "window_sum p (spec_gains s) i = 0 \<longleftrightarrow>
              (\<forall>j. Suc i - p \<le> j \<and> j \<le> i \<longrightarrow> spec_gains s ! j = 0)"
    using assms by (intro window_sum_zero_iff spec_gains_nonneg) (simp_all add: length_spec_gains)
  have l0: "window_sum p (spec_losses s) i = 0 \<longleftrightarrow>
              (\<forall>j. Suc i - p \<le> j \<and> j \<le> i \<longrightarrow> spec_losses s ! j = 0)"
    using assms by (intro window_sum_zero_iff spec_losses_nonneg) (simp_all add: length_spec_losses)
  have flat: "spec_gains s ! j = 0 \<and> spec_losses s ! j = 0 \<longleftrightarrow> j = 0 \<or> s ! j = s ! (j - 1)"
    if "j \<le> i" for j
  proof -
    from that assms(3) have "j < length s" by simp
    then show ?thesis
      by (simp add: spec_gains_nth spec_losses_nth max_def)
  qed
  have "spec_rsi s p i = NaN \<longleftrightarrow>
          window_sum p (spec_gains s) i = 0 \<and> window_sum p (spec_losses s) i = 0"
    by (simp add: spec_rsi_value [OF assms(1)])
  also have "\<dots> \<longleftrightarrow> (\<forall>j. Suc i - p \<le> j \<and> j \<le> i \<longrightarrow> spec_gains s ! j = 0 \<and> spec_losses s ! j = 0)"
    unfolding g0 l0 by auto
  also have "\<dots> \<longleftrightarrow> (\<forall>j. Suc i - p \<le> j \<and> j \<le> i \<longrightarrow> j = 0 \<or> s ! j = s ! (j - 1))"
    by (simp add: flat)
  finally have "spec_rsi s p i = NaN \<longleftrightarrow>
      (\<forall>j. Suc i - p \<le> j \<and> j \<le> i \<longrightarrow> j = 0 \<or> s ! j = s ! (j - 1))" .
  then show ?thesis by auto
qed

lemma calculate_rsi_last:
  assumes "0 \<le> p" and "nat p \<le> length s" and "s \<noteq> []"
  shows "\<exists>r. calculate_rsi s p = Inr r \<and> length r = length s \<and>
             last r = spec_rsi s (nat p) (length s - 1)"
proof -
  let ?f = "\<lambda>i. if Suc i < nat p then NaN else spec_rsi s (nat p) i"
  have n: "0 < length s" using assms(3) by simp
  then have "[0..<length s] \<noteq> []" by simp
  then have "last (map ?f [0..<length s]) = ?f (last [0..<length s])"
    by (rule last_map)
  also have "last [0..<length s] = length s - 1"
    using n by (simp add: last_upt)
  also have "?f (length s - 1) = spec_rsi s (nat p) (length s - 1)"
    using n assms(2) by simp
  finally show ?thesis
    by (simp add: calculate_rsi_char [OF assms(1)])
qed

lemma rising_window:
  assumes "0 < p" and "Suc p \<le> length s" and "sorted_wrt (<) s"
  shows "window_sum p (spec_losses s) (length s - 1) = 0"
    and "window_sum p (spec_gains s) (length s - 1) \<noteq> 0"
proof -
  let ?i = "length s - 1"
  have i: "?i < length s" "p \<le> Suc ?i" "Suc ?i - p = length s - p" "0 < length s - p"
    using assms(1,2) by simp_all
  have up: "s ! (j - 1) < s ! j" if "0 < j" "j < length s" for j
    using sorted_wrt_nth_less [OF assms(3), of "j - 1" j] that by simp
  have "window_sum p (spec_losses s) ?i = 0 \<longleftrightarrow>
          (\<forall>j. Suc ?i - p \<le> j \<and> j \<le> ?i \<longrightarrow> spec_losses s ! j = 0)"
    using i by (intro window_sum_zero_iff spec_losses_nonneg) (simp_all add: length_spec_losses)
  moreover have "spec_losses s ! j = 0" if "Suc ?i - p \<le> j" "j \<le> ?i" for j
  proof -
    from that i have j: "0 < j" "j < length s" by linarith+
    with up [OF j] show ?thesis by (simp add: spec_losses_nth)
  qed
  ultimately show "window_sum p (spec_losses s) ?i = 0" by blast
  have "window_sum p (spec_gains s) ?i = 0 \<longleftrightarrow>
          (\<forall>j. Suc ?i - p \<le> j \<and> j \<le> ?i \<longrightarrow> spec_gains s ! j = 0)"
    using i by (intro window_sum_zero_iff spec_gains_nonneg) (simp_all add: length_spec_gains)
  moreover have "spec_gains s ! ?i \<noteq> 0"
  proof -
    from i assms(1,2) have j: "0 < ?i" "?i < length s" by linarith+
    with up [OF j] show ?thesis by (simp add: spec_gains_nth)
  qed
  moreover have "Suc ?i - p \<le> ?i" using assms(1,2) by linarith
  ultimately show "window_sum p (spec_gains s) ?i \<noteq> 0" by blast
qed

lemma falling_window:
  assumes "0 < p" and "Suc p \<le> length s" and "sorted_wrt (\<lambda>a b. b < a) s"
  shows "window_sum p (spec_gains s) (length s - 1) = 0"
    and "window_sum p (spec_losses s) (length s - 1) \<noteq> 0"
proof -
  let ?i = "length s - 1"
  have i: "?i < length s" "p \<le> Suc ?i" "Suc ?i - p = length s - p" "0 < length s - p"
    using assms(1,2) by simp_all
  have down: "s ! j < s ! (j - 1)" if "0 < j" "j < length s" for j
    using sorted_wrt_nth_less [OF assms(3), of "j - 1" j] that by simp
  have "window_sum p (spec_gains s) ?i = 0 \<longleftrightarrow>
          (\<forall>j. Suc ?i - p \<le> j \<and> j \<le> ?i \<longrightarrow> spec_gains s ! j = 0)"
    using i by (intro window_sum_zero_iff spec_gains_nonneg) (simp_all add: length_spec_gains)
  moreover have "spec_gains s ! j = 0" if "Suc ?i - p \<le> j" "j \<le> ?i" for j
  proof -
    from that i have j: "0 < j" "j < length s" by linarith+
    with down [OF j] show ?thesis by (simp add: spec_gains_nth)
  qed
  ultimately show "window_sum p (spec_gains s) ?i = 0" by blast
  have "window_sum p (spec_losses s) ?i = 0 \<longleftrightarrow>
          (\<forall>j. Suc ?i - p \<le> j \<and> j \<le> ?i \<longrightarrow> spec_losses s ! j = 0)"
    using i by (intro window_sum_zero_iff spec_losses_nonneg) (simp_all add: length_spec_losses)
  moreover have "spec_losses s ! ?i \<noteq> 0"
  proof -
    from i assms(1,2) have j: "0 < ?i" "?i < length s" by linarith+
    with down [OF j] show ?thesis by (simp add: spec_losses_nth)
  qed
  moreover have "Suc ?i - p \<le> ?i" using assms(1,2) by linarith
  ultimately show "window_sum p (spec_losses s) ?i \<noteq> 0" by blast
qed

text \<open>
  Claim C2, as amended. For every price series and every period \<open>p \<ge> 0\<close> (a negative
  period is rejected with \<open>ValueError\<close>) the RSI has one value per price; the value at
  index \<open>i\<close> is missing while fewer than \<open>p\<close> samples have accumulated; from then on
  it is the simple moving average of the gains over the last \<open>p\<close> bars divided by that of
  the losses, converted by \<open>100 - 100 / (1 + rs)\<close>, and it is defined exactly when some
  bar of the window changed the price: on a window without any price change it stays
  missing.
\<close>

theorem calculate_rsi_is_sma_ratio:
  assumes "0 \<le> p"
  shows "\<exists>r. calculate_rsi s p = Inr r \<and> length r = length s \<and>
           (\<forall>i. i < length s \<longrightarrow>
              (Suc i < nat p \<longrightarrow> r ! i = NaN) \<and>
              (nat p \<le> Suc i \<longrightarrow>
                 r ! i = spec_rsi s (nat p) i \<and>
                 (r ! i \<noteq> NaN \<longleftrightarrow>
                    (\<exists>j. Suc i - nat p \<le> j \<and> j \<le> i \<and> 0 < j \<and> s ! j \<noteq> s ! (j - 1)))))"
proof -
  let ?r = "map (\<lambda>i. if Suc i < nat p then NaN else spec_rsi s (nat p) i) [0..<length s]"
  have r: "calculate_rsi s p = Inr ?r"
    by (rule calculate_rsi_char [OF assms])
  have def: "spec_rsi s (nat p) i \<noteq> NaN \<longleftrightarrow>
               (\<exists>j. Suc i - nat p \<le> j \<and> j \<le> i \<and> 0 < j \<and> s ! j \<noteq> s ! (j - 1))"
    if "i < length s" "nat p \<le> Suc i" for i
  proof (cases "nat p = 0")
    case True
    then show ?thesis
      by (simp add: spec_rsi_def spec_sma_def fsub_def)
  next
    case False
    then have "0 < nat p" by simp
    from spec_rsi_defined_iff [OF this that(2,1)] show ?thesis .
  qed
  have "(Suc i < nat p \<longrightarrow> ?r ! i = NaN) \<and>
        (nat p \<le> Suc i \<longrightarrow>
           ?r ! i = spec_rsi s (nat p) i \<and>
           (?r ! i \<noteq> NaN \<longleftrightarrow>
              (\<exists>j. Suc i - nat p \<le> j \<and> j \<le> i \<and> 0 < j \<and> s ! j \<noteq> s ! (j - 1))))"
    if "i < length s" for i
    using that def [OF that] by simp
  then show ?thesis
    using r by simp
qed

theorem calculate_rsi_is_sma_ratio_witness:
  "\<exists>r. calculate_rsi [1, 2, 2, 2] 2 = Inr r \<and> r ! 0 = NaN \<and> r ! 1 = Fin 100 \<and> r ! 3 = NaN"
proof -
  have v: "spec_rsi [1, 2, 2, 2] 2 1 = Fin 100" "spec_rsi [1, 2, 2, 2] 2 3 = NaN"
    by (simp_all add: spec_rsi_def spec_sma_def spec_gains_def spec_losses_def fsub_def upt_rec
        eval_nat_numeral)
  have "(0::int) \<le> 2" by simp
  from calculate_rsi_is_sma_ratio [OF this, of "[1, 2, 2, 2]"] obtain r where
    r: "calculate_rsi [1, 2, 2, 2] 2 = Inr r"
    and at: "\<forall>i. i < length [1, 2, 2, 2 :: real] \<longrightarrow>
           (Suc i < nat 2 \<longrightarrow> r ! i = NaN) \<and>
           (nat 2 \<le> Suc i \<longrightarrow>
              r ! i = spec_rsi [1, 2, 2, 2] (nat 2) i \<and>
              (r ! i \<noteq> NaN \<longleftrightarrow>
                 (\<exists>j. Suc i - nat 2 \<le> j \<and> j \<le> i \<and> 0 < j \<and>
                      [1, 2, 2, 2 :: real] ! j \<noteq> [1, 2, 2, 2] ! (j - 1))))"
    by blast
  have "r ! 0 = NaN" using at [rule_format, of 0] by simp
  moreover have "r ! 1 = Fin 100" using at [rule_format, of 1] v by simp
  moreover have "r ! 3 = NaN" using at [rule_format, of 3] v by simp
  ultimately show ?thesis using r by blast
qed

text \<open>
  The claim as stated has the RSI defined from the \<open>p\<close>-th sample on, for every series and
  every period. On the flat series 1, 1, 1 with period 2 every value is missing, and a
  negative period raises.
\<close>

theorem rsi_flat_window_counterexample:
  "calculate_rsi [1, 1, 1] 2 = Inr [NaN, NaN, NaN] \<and> calculate_rsi [1, 1, 1] (- 1) = Inl ValueError"
  by (simp add: calculate_rsi_def rolling_mean_def window_mean_def window_at_def
      series_where_def fillna_def fgt_def fsub_def Let_def upt_rec)

text \<open>
  Claim C5, as amended. For every period \<open>p \<ge> 1\<close> and every strictly increasing price
  series with at least \<open>p + 1\<close> samples the RSI at the last index is exactly 100 (every
  loss of the window is zero and some gain is not); for every strictly decreasing such
  series it is exactly 0.
\<close>

theorem rsi_monotone_series:
  assumes "1 \<le> p" and "nat p + 1 \<le> length s"
  shows "(sorted_wrt (<) s \<longrightarrow>
            (\<exists>r. calculate_rsi s p = Inr r \<and> length r = length s \<and> last r = Fin 100)) \<and>
         (sorted_wrt (\<lambda>a b. b < a) s \<longrightarrow>
            (\<exists>r. calculate_rsi s p = Inr r \<and> length r = length s \<and> last r = Fin 0))"
proof -
  have p: "0 < nat p" "Suc (nat p) \<le> length s" "0 \<le> p" "nat p \<le> length s" "s \<noteq> []"
    using assms by auto
  from calculate_rsi_last [OF p(3,4,5)] obtain r where
    r: "calculate_rsi s p = Inr r" "length r = length s"
       "last r = spec_rsi s (nat p) (length s - 1)"
    by blast
  have "last r = Fin 100" if "sorted_wrt (<) s"
    using rising_window [OF p(1,2) that] r(3) by (simp add: spec_rsi_value [OF p(1)])
  moreover have "last r = Fin 0" if "sorted_wrt (\<lambda>a b. b < a) s"
    using falling_window [OF p(1,2) that] r(3) by (simp add: spec_rsi_value [OF p(1)])
  ultimately show ?thesis using r(1,2) by simp
qed

theorem rsi_monotone_series_witness:
  "(\<exists>r. calculate_rsi [1, 2, 4] 2 = Inr r \<and> last r = Fin 100) \<and>
   (\<exists>r. calculate_rsi [4, 2, 1] 2 = Inr r \<and> last r = Fin 0)"
  using rsi_monotone_series [of 2 "[1, 2, 4]"] rsi_monotone_series [of 2 "[4, 2, 1]"]
  by auto

text \<open>
  The claim as stated holds for no series when the period is 0: every window is empty and
  the RSI is missing at every index, also on the increasing series 1, 2.
\<close>

theorem rsi_period_zero_counterexample:
  "sorted_wrt (<) [1, 2 :: real] \<and> nat 0 + 1 \<le> length [1, 2 :: real] \<and>
   calculate_rsi [1, 2] 0 = Inr [NaN, NaN]"
  by (simp add: calculate_rsi_def rolling_mean_def window_mean_def window_at_def
      series_where_def fillna_def fgt_def fsub_def Let_def upt_rec)

section \<open>Properties of the signal rule\<close>

lemma log_logger_info: "log (logger_info m w) = log w @ [INFO m]"
  by (simp add: logger_info_def)

lemma rel_distance_nonzero:
  "level \<noteq> 0 \<Longrightarrow> rel_distance price level = Fin (\<bar>price - level\<bar> / level)"
  by (simp add: rel_distance_def)

lemma near_positive_level:
  assumes "0 < level"
  shows "flt (rel_distance price level) (Fin 0.01) \<longleftrightarrow> spec_within_1pct price level"
proof -
  have "\<bar>price - level\<bar> / level < 0.01 \<longleftrightarrow> \<bar>price - level\<bar> < 0.01 * level"
    using assms by (simp add: pos_divide_less_eq)
  then show ?thesis
    using assms by (simp add: rel_distance_nonzero spec_within_1pct_def)
qed

lemma signal_rule_positive:
  assumes "getitem fib_levels ''100.0%'' = Inr low" and "getitem fib_levels ''0.0%'' = Inr high"
    and "0 < low" and "0 < high"
  shows "signal_rule rsi price fib_levels = Inr (spec_signal rsi price low high)"
proof -
  note a = near_positive_level [OF assms(3), of price]
  note b = near_positive_level [OF assms(4), of price]
  have excl: "\<not> (flt rsi (Fin 50) \<and> fgt rsi (Fin 55))"
    by (cases rsi) (simp_all add: fgt_def)
  show ?thesis
    using excl a b by (auto simp: signal_rule_def spec_signal_def assms(1,2))
qed

text \<open>
  Claim C1, as amended. The signal is a function of the latest RSI, the latest close and
  the level map alone. When the 100% and 0% levels are strictly positive (as they are for
  any series of positive prices), it is BUY if RSI < 50 and the price is within 1% of the
  100% level, SELL if RSI > 55 and the price is within 1% of the 0% level, and no signal
  otherwise. In particular RSI = 40 at the 100% level gives BUY, RSI = 60 at the 0% level
  gives SELL, and RSI = 52 at the midpoint gives no signal.
\<close>

theorem signal_rule_thresholds:
  assumes "getitem fib_levels ''100.0%'' = Inr low" and "getitem fib_levels ''0.0%'' = Inr high"
    and "0 < low" and "0 < high"
  shows "signal_rule rsi price fib_levels = Inr (spec_signal rsi price low high) \<and>
         signal_rule (Fin 40) low fib_levels = Inr (Some BUY) \<and>
         signal_rule (Fin 60) high fib_levels = Inr (Some SELL) \<and>
         signal_rule (Fin 52) ((low + high) / 2) fib_levels = Inr None"
  using assms(3,4)
  by (simp add: signal_rule_positive [OF assms] spec_signal_def spec_within_1pct_def fgt_def)

theorem signal_rule_thresholds_witness:
  "signal_rule (Fin 45) 100.5 [(''0.0%'', 110), (''100.0%'', 100)] = Inr (Some BUY) \<and>
   signal_rule (Fin 40) 100 [(''0.0%'', 110), (''100.0%'', 100)] = Inr (Some BUY) \<and>
   signal_rule (Fin 60) 110 [(''0.0%'', 110), (''100.0%'', 100)] = Inr (Some SELL) \<and>
   signal_rule (Fin 52) 105 [(''0.0%'', 110), (''100.0%'', 100)] = Inr None"
  using signal_rule_thresholds [of "[(''0.0%'', 110), (''100.0%'', 100)]" 100 110 "Fin 45" "100.5"]
  by (simp add: getitem_def spec_signal_def spec_within_1pct_def fgt_def)

text \<open>
  The claim as stated has no condition on the levels. On the series 1, 0 the 100% level is
  0: at RSI = 40 and a price equal to that level the ratio is \<open>0 / 0\<close> and no signal is
  given. On the series -100, 1000 the 100% level is negative: the ratio is negative, so at
  RSI = 40 the price 1000, far from that level, gives BUY.
\<close>

theorem signal_rule_zero_level_counterexample:
  "getitem (projr (fibonacci_levels [1, 0])) ''100.0%'' = Inr 0 \<and>
   signal_rule (Fin 40) 0 (projr (fibonacci_levels [1, 0])) = Inr None \<and>
   getitem (projr (fibonacci_levels [- 100, 1000])) ''100.0%'' = Inr (- 100) \<and>
   \<not> spec_within_1pct 1000 (- 100) \<and>
   signal_rule (Fin 40) 1000 (projr (fibonacci_levels [- 100, 1000])) = Inr (Some BUY)"
  by (simp add: fibonacci_levels_def getitem_def signal_rule_def rel_distance_def
      spec_within_1pct_def)







section \<open>Properties of the data source\<close>

lemma simulate_result:
  "simulate e tok w =
     ((if sublist ''NIFTY'' tok \<and> \<not> sublist ''BANK'' tok
       then [(''open'', uniform e (draws w) 15000 16000 100),
             (''high'', uniform e (draws w + 1) 15000 16000 100),
             (''low'', uniform e (draws w + 2) 15000 16000 100),
             (''close'', uniform e (draws w + 3) 15000 16000 100)]
       else [(''open'', uniform e (draws w) 35000 36000 100),
             (''high'', uniform e (draws w + 1) 35000 36000 100),
             (''low'', uniform e (draws w + 2) 35000 36000 100),
             (''close'', uniform e (draws w + 3) 35000 36000 100)]),
      w\<lparr>log := log w @ [INFO (Using_simulated_data_for tok)], draws := draws w + 4\<rparr>)"
  by (simp add: simulate_def logger_info_def Let_def)

lemma fetch_without_live_call:
  assumes "simulation_mode (CONFIG e) \<or> kite e = None"
  shows "fetch_historical_data e tok ivl duration w = simulate e tok w"
  using assms by (auto simp: fetch_historical_data_def)

lemma fetch_live_success:
  assumes "\<not> simulation_mode (CONFIG e)" and "kite e = Some k"
    and "historical_data k tok (strftime e (clock w - 86400 * real_of_int duration))
           (strftime e (clock w)) ivl = Inr data"
  shows "fetch_historical_data e tok ivl duration w =
           (data, w\<lparr>historical_calls := historical_calls w @
                       [(tok, strftime e (clock w - 86400 * real_of_int duration),
                         strftime e (clock w), ivl)]\<rparr>)"
  using assms by (simp add: fetch_historical_data_def Let_def)

text \<open>
  Claim C6. The fetch operation returns a frame in every case; no exception of the live
  call leaves it. When the live call raises, the call has been made exactly once and is not
  repeated, the error and the fall-back are logged, and the frame returned is generated
  from scratch: four columns \<open>open\<close>, \<open>high\<close>, \<open>low\<close>, \<open>close\<close>, each the next draw of
  100 uniform numbers in the instrument's price range (15000 to 16000 for a token that
  names NIFTY and not BANK, 35000 to 36000 otherwise). Nothing of the failed call's data is
  in it.
\<close>

theorem fetch_falls_back_on_exception:
  assumes "\<not> simulation_mode (CONFIG e)" and "kite e = Some k"
    and "historical_data k tok (strftime e (clock w - 86400 * real_of_int duration))
           (strftime e (clock w)) ivl = Inl ex"
  shows "fetch_historical_data e tok ivl duration w =
           ((if sublist ''NIFTY'' tok \<and> \<not> sublist ''BANK'' tok
             then [(''open'', uniform e (draws w) 15000 16000 100),
                   (''high'', uniform e (draws w + 1) 15000 16000 100),
                   (''low'', uniform e (draws w + 2) 15000 16000 100),
                   (''close'', uniform e (draws w + 3) 15000 16000 100)]
             else [(''open'', uniform e (draws w) 35000 36000 100),
                   (''high'', uniform e (draws w + 1) 35000 36000 100),
                   (''low'', uniform e (draws w + 2) 35000 36000 100),
                   (''close'', uniform e (draws w + 3) 35000 36000 100)]),
            w\<lparr>historical_calls := historical_calls w @
                  [(tok, strftime e (clock w - 86400 * real_of_int duration),
                    strftime e (clock w), ivl)],
               log := log w @ [ERROR (Error_fetching_historical_data ex),
                               INFO Falling_back_to_simulation_data,
                               INFO (Using_simulated_data_for tok)],
               draws := draws w + 4\<rparr>)"
  using assms
  by (simp add: fetch_historical_data_def simulate_result logger_info_def logger_error_def
      Let_def)

theorem fetch_falls_back_on_exception_witness:
  "fetch_historical_data (live_env (Some failing_client)) ''NIFTY50'' ''5minute'' 1
       initial_world =
     ([(''open'', replicate 100 15500), (''high'', replicate 100 15500),
       (''low'', replicate 100 15500), (''close'', replicate 100 15500)],
      initial_world
        \<lparr>historical_calls := [(''NIFTY50'', ''2023-11-13'', ''2023-11-14'', ''5minute'')],
         log := [ERROR (Error_fetching_historical_data (Exception ''timed out'')),
                 INFO Falling_back_to_simulation_data,
                 INFO (Using_simulated_data_for ''NIFTY50'')],
         draws := 4\<rparr>) \<and>
   fst (fetch_historical_data (live_env (Some failing_client)) ''BANKNIFTY'' ''5minute'' 1
       initial_world) =
     [(''open'', replicate 100 35500), (''high'', replicate 100 35500),
      (''low'', replicate 100 35500), (''close'', replicate 100 35500)]"
  using fetch_falls_back_on_exception [where e = "live_env (Some failing_client)"
      and k = failing_client and tok = "''NIFTY50''" and w = initial_world and duration = 1
      and ivl = "''5minute''" and ex = "Exception ''timed out''"]
    fetch_falls_back_on_exception [where e = "live_env (Some failing_client)"
      and k = failing_client and tok = "''BANKNIFTY''" and w = initial_world and duration = 1
      and ivl = "''5minute''" and ex = "Exception ''timed out''"]
  by (simp add: live_env_def failing_client_def initial_world_def sublist_Cons_right)

section \<open>Properties of the order dispatcher\<close>

lemma execute_order_simulated:
  assumes "simulation_mode (CONFIG e) \<or> kite e = None"
  shows "execute_order e symbol ttype qty w =
           (Some (''sim_order_'' @ str_int (py_int (clock w))),
            w\<lparr>log := log w @ [INFO (SIMULATION_Order_executed ttype qty symbol)]\<rparr>)"
  using assms by (auto simp: execute_order_def logger_info_def)

lemma execute_order_live:
  assumes "\<not> simulation_mode (CONFIG e)" and "kite e = Some k"
  shows "execute_order e symbol ttype qty w =
           (let request = \<lparr>variety = ''regular'', exchange = ''NSE'', tradingsymbol = symbol,
                  transaction_type =
                    (if ttype = ''BUY'' then TRANSACTION_TYPE_BUY else TRANSACTION_TYPE_SELL),
                  quantity = qty, product = ''MIS'', order_type = ''MARKET''\<rparr>
            in case place_order k request of
                 Inr order_id \<Rightarrow>
                   (Some order_id,
                    w\<lparr>order_calls := order_calls w @ [request],
                      log := log w @ [INFO (Order_executed ttype qty symbol order_id)]\<rparr>)
               | Inl ex \<Rightarrow>
                   (None,
                    w\<lparr>order_calls := order_calls w @ [request],
                      log := log w @ [ERROR (Order_execution_failed ex)]\<rparr>))"
  using assms
  by (simp add: execute_order_def logger_info_def logger_error_def Let_def split: sum.splits)

lemma epoch_numeral: "str_int (py_int 1700000000.7) = ''1700000000''"
  by (simp add: py_int_def str_int_def str_nat.simps)

text \<open>
  Claim C7, as amended. In simulation mode, and also when simulation mode is off but no
  broker client has been initialised, the dispatcher calls nothing and returns the string
  \<open>sim_order_\<close> followed by the decimal numeral of the clock's epoch seconds. When
  simulation mode is off and a broker client is present, it calls the SDK's order placement
  exactly once, with a regular NSE market order of the given symbol and quantity, and
  returns the SDK's order id when that call returns and \<open>None\<close> when it raises; it never
  calls a second time.
\<close>

theorem execute_order_modes:
  "(simulation_mode (CONFIG e) \<or> kite e = None \<longrightarrow>
      execute_order e symbol ttype qty w =
        (Some (''sim_order_'' @ str_int (py_int (clock w))),
         w\<lparr>log := log w @ [INFO (SIMULATION_Order_executed ttype qty symbol)]\<rparr>)) \<and>
   (\<not> simulation_mode (CONFIG e) \<and> kite e = Some k \<longrightarrow>
      order_calls (snd (execute_order e symbol ttype qty w)) =
        order_calls w @
          [\<lparr>variety = ''regular'', exchange = ''NSE'', tradingsymbol = symbol,
            transaction_type =
              (if ttype = ''BUY'' then TRANSACTION_TYPE_BUY else TRANSACTION_TYPE_SELL),
            quantity = qty, product = ''MIS'', order_type = ''MARKET''\<rparr>] \<and>
      fst (execute_order e symbol ttype qty w) =
        (case place_order k
                \<lparr>variety = ''regular'', exchange = ''NSE'', tradingsymbol = symbol,
                 transaction_type =
                   (if ttype = ''BUY'' then TRANSACTION_TYPE_BUY else TRANSACTION_TYPE_SELL),
                 quantity = qty, product = ''MIS'', order_type = ''MARKET''\<rparr> of
           Inr order_id \<Rightarrow> Some order_id
         | Inl ex \<Rightarrow> None))"
proof -
  have "order_calls (snd (execute_order e symbol ttype qty w)) =
        order_calls w @
          [\<lparr>variety = ''regular'', exchange = ''NSE'', tradingsymbol = symbol,
            transaction_type =
              (if ttype = ''BUY'' then TRANSACTION_TYPE_BUY else TRANSACTION_TYPE_SELL),
            quantity = qty, product = ''MIS'', order_type = ''MARKET''\<rparr>] \<and>
      fst (execute_order e symbol ttype qty w) =
        (case place_order k
                \<lparr>variety = ''regular'', exchange = ''NSE'', tradingsymbol = symbol,
                 transaction_type =
                   (if ttype = ''BUY'' then TRANSACTION_TYPE_BUY else TRANSACTION_TYPE_SELL),
                 quantity = qty, product = ''MIS'', order_type = ''MARKET''\<rparr> of
           Inr order_id \<Rightarrow> Some order_id
         | Inl ex \<Rightarrow> None)"
    if "\<not> simulation_mode (CONFIG e) \<and> kite e = Some k"
  proof -
    from that have l: "\<not> simulation_mode (CONFIG e)" "kite e = Some k" by simp_all
    show ?thesis
      unfolding execute_order_live [OF l] Let_def by (simp split: sum.splits)
  qed
  then show ?thesis
    using execute_order_simulated [of e symbol ttype qty w] by blast
qed

theorem execute_order_modes_witness:
  "execute_order simulation_env ''NIFTY50'' ''BUY'' 1 initial_world =
     (Some ''sim_order_1700000000'',
      initial_world\<lparr>log := [INFO (SIMULATION_Order_executed ''BUY'' 1 ''NIFTY50'')]\<rparr>) \<and>
   length (order_calls (snd (execute_order (live_env (Some accepting_client)) ''NIFTY50''
       ''BUY'' 1 initial_world))) = 1 \<and>
   fst (execute_order (live_env (Some accepting_client)) ''NIFTY50'' ''BUY'' 1 initial_world) =
     Some ''240101000000001'' \<and>
   length (order_calls (snd (execute_order (live_env (Some failing_client)) ''NIFTY50''
       ''BUY'' 1 initial_world))) = 1 \<and>
   fst (execute_order (live_env (Some failing_client)) ''NIFTY50'' ''BUY'' 1 initial_world) = None"
proof -
  have sim: "simulation_mode (CONFIG simulation_env)"
    by (simp add: simulation_env_def)
  have live: "\<not> simulation_mode (CONFIG (live_env (Some c))) \<and> kite (live_env (Some c)) = Some c"
    for c by (simp add: live_env_def)
  have clk: "clock initial_world = 1700000000.7" "order_calls initial_world = []"
    "log initial_world = []"
    by (simp_all add: initial_world_def)
  from execute_order_modes [where e = simulation_env and symbol = "''NIFTY50''"
      and ttype = "''BUY''" and qty = 1 and w = initial_world] sim
  have a: "execute_order simulation_env ''NIFTY50'' ''BUY'' 1 initial_world =
     (Some ''sim_order_1700000000'',
      initial_world\<lparr>log := [INFO (SIMULATION_Order_executed ''BUY'' 1 ''NIFTY50'')]\<rparr>)"
    by (simp add: clk epoch_numeral)
  from execute_order_modes [where e = "live_env (Some accepting_client)"
      and k = accepting_client and symbol = "''NIFTY50''" and ttype = "''BUY''" and qty = 1
      and w = initial_world] live [of accepting_client]
  have b: "length (order_calls (snd (execute_order (live_env (Some accepting_client))
               ''NIFTY50'' ''BUY'' 1 initial_world))) = 1 \<and>
           fst (execute_order (live_env (Some accepting_client)) ''NIFTY50'' ''BUY'' 1
               initial_world) = Some ''240101000000001''"
    by (simp add: clk accepting_client_def)
  from execute_order_modes [where e = "live_env (Some failing_client)"
      and k = failing_client and symbol = "''NIFTY50''" and ttype = "''BUY''" and qty = 1
      and w = initial_world] live [of failing_client]
  have c: "length (order_calls (snd (execute_order (live_env (Some failing_client))
               ''NIFTY50'' ''BUY'' 1 initial_world))) = 1 \<and>
           fst (execute_order (live_env (Some failing_client)) ''NIFTY50'' ''BUY'' 1
               initial_world) = None"
    by (simp add: clk failing_client_def)
  from a b c show ?thesis by simp
qed

text \<open>
  The claim as stated ties the two behaviours to the mode, that is to the configuration
  flag. With simulation mode off and no broker client (the SDK is not installed, or its
  initialisation failed) the dispatcher makes no SDK call and returns a fabricated id.
\<close>

theorem execute_order_no_client_counterexample:
  "\<not> simulation_mode (CONFIG (live_env None)) \<and>
   execute_order (live_env None) ''NIFTY50'' ''BUY'' 1 initial_world =
     (Some ''sim_order_1700000000'',
      initial_world\<lparr>log := [INFO (SIMULATION_Order_executed ''BUY'' 1 ''NIFTY50'')]\<rparr>) \<and>
   order_calls (snd (execute_order (live_env None) ''NIFTY50'' ''BUY'' 1 initial_world)) = []"
  by (simp add: execute_order_def live_env_def initial_world_def logger_info_def epoch_numeral)

text \<open>
  Claim C10, as amended. When simulation mode is off and a broker client is present, every
  transaction type other than the exact string \<open>BUY\<close>, the empty string and misspellings
  included, is sent to the broker as a SELL order: the argument is never validated and no
  order is refused before the SDK call.
\<close>

theorem live_order_side_defaults_to_sell:
  assumes "\<not> simulation_mode (CONFIG e)" and "kite e = Some k" and "ttype \<noteq> ''BUY''"
  shows "\<exists>request.
           order_calls (snd (execute_order e symbol ttype qty w)) = order_calls w @ [request] \<and>
           transaction_type request = TRANSACTION_TYPE_SELL \<and>
           tradingsymbol request = symbol \<and> quantity request = qty \<and>
           fst (execute_order e symbol ttype qty w) =
             (case place_order k request of Inr order_id \<Rightarrow> Some order_id | Inl ex \<Rightarrow> None)"
  unfolding execute_order_live [OF assms(1,2)] Let_def
  by (rule exI [of _ "\<lparr>variety = ''regular'', exchange = ''NSE'', tradingsymbol = symbol,
                  transaction_type =
                    (if ttype = ''BUY'' then TRANSACTION_TYPE_BUY else TRANSACTION_TYPE_SELL),
                  quantity = qty, product = ''MIS'', order_type = ''MARKET''\<rparr>"])
     (simp add: assms(3) split: sum.splits)

theorem live_order_side_defaults_to_sell_witness:
  "map transaction_type (order_calls (snd (execute_order (live_env (Some accepting_client))
       ''NIFTY50'' '''' 1 initial_world))) = [TRANSACTION_TYPE_SELL] \<and>
   map transaction_type (order_calls (snd (execute_order (live_env (Some accepting_client))
       ''NIFTY50'' ''buy'' 1 initial_world))) = [TRANSACTION_TYPE_SELL]"
proof -
  have live: "\<not> simulation_mode (CONFIG (live_env (Some accepting_client)))"
    "kite (live_env (Some accepting_client)) = Some accepting_client"
    by (simp_all add: live_env_def)
  have ne: "'''' \<noteq> ''BUY''" "''buy'' \<noteq> ''BUY''" by simp_all
  have oc: "order_calls initial_world = []" by (simp add: initial_world_def)
  from live_order_side_defaults_to_sell [OF live ne(1), where symbol = "''NIFTY50''"
      and qty = 1 and w = initial_world]
    live_order_side_defaults_to_sell [OF live ne(2), where symbol = "''NIFTY50''"
      and qty = 1 and w = initial_world]
  show ?thesis by (auto simp: oc)
qed

text \<open>
  The claim as stated speaks of live mode, which the program shows whenever the
  configuration flag is off. With the flag off and no broker client, a transaction type
  other than \<open>BUY\<close> (here \<open>SELL\<close> itself, and the empty string) produces no order at all:
  nothing is sent to the broker and a fabricated id is returned.
\<close>

theorem live_order_no_client_counterexample:
  "\<not> simulation_mode (CONFIG (live_env None)) \<and>
   order_calls (snd (execute_order (live_env None) ''NIFTY50'' ''SELL'' 1 initial_world)) = [] \<and>
   fst (execute_order (live_env None) ''NIFTY50'' ''SELL'' 1 initial_world) =
     Some ''sim_order_1700000000'' \<and>
   order_calls (snd (execute_order (live_env None) ''NIFTY50'' '''' 1 initial_world)) = [] \<and>
   fst (execute_order (live_env None) ''NIFTY50'' '''' 1 initial_world) =
     Some ''sim_order_1700000000''"
  by (simp add: execute_order_def live_env_def initial_world_def logger_info_def epoch_numeral)

section \<open>Properties of the configuration loader\<close>

text \<open>
  Claim C8. When no file exists at the configuration path, the loader writes the printed
  default object there, leaves every other file alone and returns the default object; the
  default object has the keys \<open>kite\<close> (with \<open>api_key\<close>, \<open>api_secret\<close>,
  \<open>access_token\<close>), \<open>instruments\<close> (with \<open>NIFTY\<close>, \<open>BANKNIFTY\<close>), \<open>analysis\<close>
  (with \<open>rsi_period\<close>, \<open>interval\<close>, \<open>duration_days\<close>) and \<open>simulation_mode\<close>, filled
  with placeholders. When the file exists, the loader returns what the parser makes of its
  text, unchanged, and writes nothing.
\<close>

theorem load_config_default_or_existing:
  "(fs config_path = None \<longrightarrow>
      load_config json_load json_dump config_path fs =
        (Inr default_config, fs(config_path \<mapsto> json_dump default_config))) \<and>
   (\<forall>content. fs config_path = Some content \<longrightarrow>
      load_config json_load json_dump config_path fs = (json_load content, fs)) \<and>
   json_keys default_config = [''kite'', ''instruments'', ''analysis'', ''simulation_mode''] \<and>
   json_get default_config ''kite'' =
     Some (JObject [(''api_key'', JString ''YOUR_KITE_API_KEY''),
                    (''api_secret'', JString ''YOUR_KITE_API_SECRET''),
                    (''access_token'', JString ''YOUR_ACCESS_TOKEN'')]) \<and>
   json_get default_config ''instruments'' =
     Some (JObject [(''NIFTY'', JString ''NIFTY50''), (''BANKNIFTY'', JString ''BANKNIFTY'')]) \<and>
   json_get default_config ''analysis'' =
     Some (JObject [(''rsi_period'', JInt 14), (''interval'', JString ''5minute''),
                    (''duration_days'', JInt 1)]) \<and>
   json_get default_config ''simulation_mode'' = Some (JBool True)"
  by (simp add: load_config_def default_config_def)

theorem load_config_default_or_existing_witness:
  "load_config (\<lambda>content. Inr (JObject [])) (\<lambda>j. ''{...}'') ''config.json'' Map.empty =
     (Inr default_config, [''config.json'' \<mapsto> ''{...}'']) \<and>
   load_config (\<lambda>content. Inr (JObject [])) (\<lambda>j. ''{...}'') ''config.json''
       [''config.json'' \<mapsto> ''{}''] =
     (Inr (JObject []), [''config.json'' \<mapsto> ''{}''])"
  using load_config_default_or_existing [where fs = Map.empty
      and config_path = "''config.json''" and json_load = "\<lambda>content. Inr (JObject [])"
      and json_dump = "\<lambda>j. ''{...}''"]
    load_config_default_or_existing [where fs = "[''config.json'' \<mapsto> ''{}'']"
      and config_path = "''config.json''" and json_load = "\<lambda>content. Inr (JObject [])"
      and json_dump = "\<lambda>j. ''{...}''"]
  by simp

end
